theory Spec2Isabelle
  imports Complex_Main
begin

section \<open>Packets, environment and outcomes shared by the example scripts\<close>

text \<open>
  Every script under \<^verbatim>\<open>src/examples\<close> subscribes a callback \<^verbatim>\<open>on_receive(packet, interface)\<close>.
  The packet is a nested Python dictionary; a key that may be absent is an \<open>option\<close> field,
  \<open>None\<close> meaning "key not in the dictionary".  Python floats are idealised as \<open>real\<close>,
  Python ints are \<open>int\<close>.
\<close>

datatype pynum = PInt int | PFloat real

record device_metrics =
  batteryLevel :: "int option"
  voltage :: "real option"

record environment_metrics =
  temperature :: "real option"

record telemetry =
  deviceMetrics :: "device_metrics option"
  environmentMetrics :: "environment_metrics option"

record position =
  latitude :: "pynum option"
  latitudeI :: "pynum option"
  longitude :: "pynum option"
  longitudeI :: "pynum option"
  altitude :: "pynum option"
  groundSpeed :: "pynum option"
  groundTrack :: "pynum option"

record decoded =
  portnum :: "string option"
  payload :: "string option"
  telemetry :: "telemetry option"
  position :: "position option"

record packet =
  fromId :: "string option"
  decoded :: "decoded option"

text \<open>The node directory \<^verbatim>\<open>interface.nodes\<close>: a dictionary from node id to a node dictionary
  with an optional \<^verbatim>\<open>'user'\<close> entry, itself with an optional \<^verbatim>\<open>'longName'\<close>.\<close>

record user =
  longName :: "string option"

record node =
  user :: "user option"

text \<open>What a callback reads from the outside world while it handles one packet:
  \<^verbatim>\<open>time.time()\<close>, the formatted \<^verbatim>\<open>datetime.now()\<close>, \<^verbatim>\<open>interface.nodes\<close>, and whether
  \<^verbatim>\<open>interface.sendText\<close> returns (\<open>True\<close>) or raises (\<open>False\<close>).\<close>

record env =
  now :: real
  timestamp :: string
  nodes :: "(string \<times> node) list"
  send_ok :: bool

datatype error = KeyError | SendError

text \<open>\<^verbatim>\<open>interface.sendText(text, destinationId=..., channelIndex=...)\<close>; an omitted keyword
  argument is \<open>None\<close>.\<close>

datatype action = SendText string "string option" "nat option"

text \<open>A line appended to one of the CSV files, kept as its fields.\<close>

datatype record_event =
  BatteryRecord string string string int "real option"
| PositionRecord string string string pynum pynum "pynum option" "pynum option" "pynum option"

text \<open>The outcome of one callback: the module-level state it leaves, the sends it attempted,
  the lines it appended, and the exception that left the callback, if any.\<close>

record 'st outcome =
  state :: 'st
  sent :: "action list"
  logged :: "record_event list"
  raised :: "error option"

definition returned :: "'st \<Rightarrow> 'st outcome" where
  "returned s = \<lparr>state = s, sent = [], logged = [], raised = None\<rparr>"

text \<open>\<^verbatim>\<open>d[k]\<close> raises \<^verbatim>\<open>KeyError\<close> on a missing key; \<^verbatim>\<open>d.get(k, default)\<close> does not.\<close>

definition subscript :: "'a option \<Rightarrow> error + 'a" where
  "subscript x = (case x of None \<Rightarrow> Inl KeyError | Some v \<Rightarrow> Inr v)"

definition get_default :: "'a option \<Rightarrow> 'a \<Rightarrow> 'a" where
  "get_default x d = (case x of None \<Rightarrow> d | Some v \<Rightarrow> v)"

definition empty_telemetry :: telemetry where
  "empty_telemetry = \<lparr>deviceMetrics = None, environmentMetrics = None\<rparr>"

definition empty_device_metrics :: device_metrics where
  "empty_device_metrics = \<lparr>batteryLevel = None, voltage = None\<rparr>"

definition empty_environment_metrics :: environment_metrics where
  "empty_environment_metrics = \<lparr>temperature = None\<rparr>"

definition empty_position :: position where
  "empty_position = \<lparr>latitude = None, latitudeI = None, longitude = None, longitudeI = None,
     altitude = None, groundSpeed = None, groundTrack = None\<rparr>"

text \<open>\<^verbatim>\<open>get_node_name\<close> (battery_monitor.py, position_tracker.py).\<close>

definition get_node_name :: "(string \<times> node) list \<Rightarrow> string \<Rightarrow> string" where
  "get_node_name ns node_id =
     (if ns \<noteq> [] then
        (case map_of ns node_id of
           None \<Rightarrow> node_id
         | Some nd \<Rightarrow>
             (case user nd of
                None \<Rightarrow> node_id
              | Some u \<Rightarrow> get_default (longName u) node_id))
      else node_id)"

text \<open>\<^verbatim>\<open>str(n)\<close> for an integer, as an f-string renders it.\<close>

fun str_nat :: "nat \<Rightarrow> string" where
  "str_nat n =
     (if n < 10 then [''0123456789'' ! n]
      else str_nat (n div 10) @ [''0123456789'' ! (n mod 10)])"

declare str_nat.simps [simp del]

definition str_int :: "int \<Rightarrow> string" where
  "str_int i = (if i < 0 then CHR ''-'' # str_nat (nat (- i)) else str_nat (nat i))"


section \<open>battery_monitor.py\<close>

record battery_config =
  LOW_BATTERY_THRESHOLD :: int
  ALERT_COOLDOWN :: real

definition battery_defaults :: battery_config where
  "battery_defaults = \<lparr>LOW_BATTERY_THRESHOLD = 20, ALERT_COOLDOWN = 3600\<rparr>"

record battery_state =
  last_alert_time :: "string \<rightharpoonup> real"
  node_batteries :: "string \<rightharpoonup> int"

definition battery_init :: battery_state where
  "battery_init = \<lparr>last_alert_time = Map.empty, node_batteries = Map.empty\<rparr>"

definition battery_alert_msg :: "string \<Rightarrow> int \<Rightarrow> string" where
  "battery_alert_msg sender_name battery_level =
     ''LOW BATTERY: '' @ sender_name @ '' at '' @ str_int battery_level @ ''%''"

text \<open>\<^verbatim>\<open>voltage or ''\<close>: a missing or zero voltage is written as the empty field.\<close>

definition voltage_or_empty :: "real option \<Rightarrow> real option" where
  "voltage_or_empty v = (case v of None \<Rightarrow> None | Some x \<Rightarrow> if x = 0 then None else Some x)"

definition battery_on_receive ::
  "battery_config \<Rightarrow> env \<Rightarrow> battery_state \<Rightarrow> packet \<Rightarrow> battery_state outcome" where
  "battery_on_receive cfg e s p =
     (if decoded p = None then returned s
      else
        (case subscript (decoded p) of
           Inl err \<Rightarrow> (returned s)\<lparr>raised := Some err\<rparr>
         | Inr d \<Rightarrow>
             if portnum d = Some ''TELEMETRY_APP'' then
               (let tel = get_default (telemetry d) empty_telemetry;
                    dm = get_default (deviceMetrics tel) empty_device_metrics
                in case batteryLevel dm of
                     None \<Rightarrow> returned s
                   | Some battery_level \<Rightarrow>
                       (let sender_id = get_default (fromId p) ''unknown'';
                            sender_name = get_node_name (nodes e) sender_id;
                            line = BatteryRecord (timestamp e) sender_id sender_name battery_level
                                     (voltage_or_empty (voltage dm));
                            s1 = s\<lparr>node_batteries := (node_batteries s)(sender_id \<mapsto> battery_level)\<rparr>
                        in if battery_level \<le> LOW_BATTERY_THRESHOLD cfg then
                             (let current_time = now e;
                                  last_time = get_default (last_alert_time s1 sender_id) 0
                              in if current_time - last_time \<ge> ALERT_COOLDOWN cfg then
                                   (let alert_msg = battery_alert_msg sender_name battery_level
                                    in if send_ok e then
                                         \<lparr>state = s1\<lparr>last_alert_time :=
                                                       (last_alert_time s1)(sender_id \<mapsto> current_time)\<rparr>,
                                          sent = [SendText alert_msg None None],
                                          logged = [line], raised = None\<rparr>
                                       else
                                         \<lparr>state = s1, sent = [SendText alert_msg None None],
                                          logged = [line], raised = Some SendError\<rparr>)
                                 else \<lparr>state = s1, sent = [], logged = [line], raised = None\<rparr>)
                           else \<lparr>state = s1, sent = [], logged = [line], raised = None\<rparr>))
             else returned s))"

text \<open>The subscription \<^verbatim>\<open>pub.subscribe(on_receive, "meshtastic.receive")\<close> delivers the packets
  one after the other to the callback, which works on the module-level state left by the
  previous call (also when that call raised).\<close>

fun battery_run ::
  "battery_config \<Rightarrow> battery_state \<Rightarrow> (env \<times> packet) list \<Rightarrow> battery_state outcome list" where
  "battery_run cfg s [] = []"
| "battery_run cfg s ((e, p) # evs) =
     (let r = battery_on_receive cfg e s p in r # battery_run cfg (state r) evs)"

text \<open>A view of a packet used to state properties: the sender id and battery level that
  \<open>battery_on_receive\<close> extracts, if the packet carries them.\<close>

definition battery_reading :: "packet \<Rightarrow> (string \<times> int) option" where
  "battery_reading p =
     (case decoded p of
        None \<Rightarrow> None
      | Some d \<Rightarrow>
          if portnum d = Some ''TELEMETRY_APP'' then
            (case batteryLevel (get_default (deviceMetrics (get_default (telemetry d) empty_telemetry))
                                  empty_device_metrics) of
               None \<Rightarrow> None
             | Some v \<Rightarrow> Some (get_default (fromId p) ''unknown'', v))
          else None)"

text \<open>The two tests that guard the battery alert, on the state before the event.\<close>

definition battery_due :: "battery_config \<Rightarrow> env \<Rightarrow> battery_state \<Rightarrow> string \<Rightarrow> int \<Rightarrow> bool" where
  "battery_due cfg e s n v =
     (v \<le> LOW_BATTERY_THRESHOLD cfg \<and>
      now e - get_default (last_alert_time s n) 0 \<ge> ALERT_COOLDOWN cfg)"

section \<open>auto_responder.py\<close>

text \<open>Python's \<^verbatim>\<open>str.lower\<close>, \<^verbatim>\<open>str.strip\<close> and \<^verbatim>\<open>in\<close> on strings, for ASCII text: a
  \<open>char\<close> outside \<open>A\<close>..\<open>Z\<close> is left as it is, and the whitespace stripped is
  the ASCII whitespace of \<^verbatim>\<open>str.isspace\<close>.\<close>

definition lower_char :: "char \<Rightarrow> char" where
  "lower_char c =
     (if 65 \<le> (of_char c :: nat) \<and> (of_char c :: nat) \<le> 90
      then char_of ((of_char c :: nat) + 32) else c)"

definition lower :: "string \<Rightarrow> string" where
  "lower s = map lower_char s"

definition isspace :: "char \<Rightarrow> bool" where
  "isspace c = ((of_char c :: nat) \<in> {9, 10, 11, 12, 13, 28, 29, 30, 31, 32})"

definition strip :: "string \<Rightarrow> string" where
  "strip s = rev (dropWhile isspace (rev (dropWhile isspace s)))"

fun startswith :: "string \<Rightarrow> string \<Rightarrow> bool" where
  "startswith [] ys = True"
| "startswith (x # xs) [] = False"
| "startswith (x # xs) (y # ys) = (x = y \<and> startswith xs ys)"

text \<open>\<open>str_in k m\<close> is \<^verbatim>\<open>k in m\<close>: \<open>k\<close> occurs in \<open>m\<close> as a contiguous substring.\<close>

fun str_in :: "string \<Rightarrow> string \<Rightarrow> bool" where
  "str_in k [] = (k = [])"
| "str_in k (y # ys) = (startswith k (y # ys) \<or> str_in k ys)"

record responder_config =
  RESPONSES :: "(string \<times> string) list"
  INCLUDE_BATTERY_IN_STATUS :: bool
  RESPONSE_COOLDOWN :: real

definition responder_defaults :: responder_config where
  "responder_defaults =
     \<lparr>RESPONSES =
        [(''status'', ''AUTO-REPLY: Node is online and operational.''),
         (''help'', ''AUTO-REPLY: Available commands: status, help, info''),
         (''info'', ''AUTO-REPLY: This is an automated Meshtastic node.''),
         (''ping'', ''AUTO-REPLY: Pong!'')],
      INCLUDE_BATTERY_IN_STATUS = True,
      RESPONSE_COOLDOWN = 60\<rparr>"

record responder_state =
  last_response_time :: "string \<rightharpoonup> real"

definition responder_init :: responder_state where
  "responder_init = \<lparr>last_response_time = Map.empty\<rparr>"

text \<open>\<^verbatim>\<open>get_battery_info\<close> returns \<^verbatim>\<open>None\<close> on each of its paths (the bare \<^verbatim>\<open>except\<close>
  swallows whatever the attribute reads raise).\<close>

definition get_battery_info :: "env \<Rightarrow> int option" where
  "get_battery_info e = None"

definition status_response :: "responder_config \<Rightarrow> env \<Rightarrow> string \<Rightarrow> string \<Rightarrow> string" where
  "status_response cfg e keyword response =
     (if lower keyword = ''status'' \<and> INCLUDE_BATTERY_IN_STATUS cfg then
        (case get_battery_info e of
           None \<Rightarrow> response
         | Some battery \<Rightarrow>
             if battery \<noteq> 0 then response @ '' Battery: '' @ str_int battery @ ''%''
             else response)
      else response)"

text \<open>The \<^verbatim>\<open>for keyword, response in RESPONSES.items()\<close> loop with its \<^verbatim>\<open>break\<close>; a
  dictionary iterates in insertion order, so \<open>RESPONSES\<close> is the list of its items.\<close>

fun keyword_loop ::
  "responder_config \<Rightarrow> env \<Rightarrow> responder_state \<Rightarrow> string \<Rightarrow> real \<Rightarrow> string \<Rightarrow>
   (string \<times> string) list \<Rightarrow> responder_state outcome" where
  "keyword_loop cfg e s sender_id current_time message_lower [] = returned s"
| "keyword_loop cfg e s sender_id current_time message_lower ((keyword, response) # rest) =
     (if str_in (lower keyword) message_lower then
        (let response' = status_response cfg e keyword response
         in if send_ok e then
              \<lparr>state = s\<lparr>last_response_time := (last_response_time s)(sender_id \<mapsto> current_time)\<rparr>,
               sent = [SendText response' (Some sender_id) None], logged = [], raised = None\<rparr>
            else
              \<lparr>state = s, sent = [SendText response' (Some sender_id) None], logged = [],
               raised = Some SendError\<rparr>)
      else keyword_loop cfg e s sender_id current_time message_lower rest)"

text \<open>\<open>decode\<close> stands for \<^verbatim>\<open>bytes.decode('utf-8', errors='replace')\<close>, a function of the
  Python library that returns a string for every byte string.\<close>

definition responder_on_receive ::
  "(string \<Rightarrow> string) \<Rightarrow> responder_config \<Rightarrow> env \<Rightarrow> responder_state \<Rightarrow> packet \<Rightarrow>
   responder_state outcome" where
  "responder_on_receive decode cfg e s p =
     (if decoded p = None then returned s
      else
        (case subscript (decoded p) of
           Inl err \<Rightarrow> (returned s)\<lparr>raised := Some err\<rparr>
         | Inr d \<Rightarrow>
             if portnum d = Some ''TEXT_MESSAGE_APP'' then
               (let sender_id = get_default (fromId p) ''unknown'';
                    message = decode (get_default (payload d) []);
                    message_lower = strip (lower message);
                    current_time = now e;
                    last_time = get_default (last_response_time s sender_id) 0
                in if current_time - last_time < RESPONSE_COOLDOWN cfg then returned s
                   else keyword_loop cfg e s sender_id current_time message_lower (RESPONSES cfg))
             else returned s))"

text \<open>A view of a packet used to state properties: the sender id and payload of a text
  message.\<close>

definition text_message :: "packet \<Rightarrow> (string \<times> string) option" where
  "text_message p =
     (case decoded p of
        None \<Rightarrow> None
      | Some d \<Rightarrow>
          if portnum d = Some ''TEXT_MESSAGE_APP''
          then Some (get_default (fromId p) ''unknown'', get_default (payload d) [])
          else None)"

text \<open>The outcome of the loop body at a rule that matches: the reply \<open>resp\<close> goes to the
  sender, and the sender's \<open>last_response_time\<close> is set once \<^verbatim>\<open>sendText\<close> has returned.\<close>

definition replied ::
  "env \<Rightarrow> responder_state \<Rightarrow> string \<Rightarrow> real \<Rightarrow> string \<Rightarrow> responder_state outcome" where
  "replied e s n t resp =
     (if send_ok e
      then \<lparr>state = s\<lparr>last_response_time := (last_response_time s)(n \<mapsto> t)\<rparr>,
            sent = [SendText resp (Some n) None], logged = [], raised = None\<rparr>
      else \<lparr>state = s, sent = [SendText resp (Some n) None], logged = [],
            raised = Some SendError\<rparr>)"

section \<open>temperature_alert.py\<close>

record temperature_config =
  LOW_TEMP_THRESHOLD :: real
  HIGH_TEMP_THRESHOLD :: real
  ALERT_COOLDOWN_temp :: real
  USE_CELSIUS :: bool

definition temperature_defaults :: temperature_config where
  "temperature_defaults =
     \<lparr>LOW_TEMP_THRESHOLD = 40, HIGH_TEMP_THRESHOLD = 90, ALERT_COOLDOWN_temp = 1800,
      USE_CELSIUS = False\<rparr>"

text \<open>The module keeps one number, \<^verbatim>\<open>last_alert_time = 0\<close>, for all senders.\<close>

record temperature_state =
  last_alert_time_temp :: real

definition temperature_init :: temperature_state where
  "temperature_init = \<lparr>last_alert_time_temp = 0\<rparr>"

definition celsius_to_fahrenheit :: "real \<Rightarrow> real" where
  "celsius_to_fahrenheit celsius = (celsius * 9 / 5) + 32"

text \<open>The degree sign, code point \<open>0xB0\<close>.\<close>

definition degree :: string where
  "degree = [char_of (176 :: nat)]"

text \<open>\<open>fmt1\<close> and \<open>fmt0\<close> stand for the float formats \<^verbatim>\<open>:.1f\<close> and \<^verbatim>\<open>:.0f\<close> of the
  f-strings.\<close>

definition low_temp_msg ::
  "(real \<Rightarrow> string) \<Rightarrow> (real \<Rightarrow> string) \<Rightarrow> real \<Rightarrow> string \<Rightarrow> real \<Rightarrow> string" where
  "low_temp_msg fmt1 fmt0 temp unit low_threshold =
     ''LOW TEMP ALERT: '' @ fmt1 temp @ degree @ unit @ '' (below '' @ fmt0 low_threshold @
     degree @ unit @ '')''"

definition high_temp_msg ::
  "(real \<Rightarrow> string) \<Rightarrow> (real \<Rightarrow> string) \<Rightarrow> real \<Rightarrow> string \<Rightarrow> real \<Rightarrow> string" where
  "high_temp_msg fmt1 fmt0 temp unit high_threshold =
     ''HIGH TEMP ALERT: '' @ fmt1 temp @ degree @ unit @ '' (above '' @ fmt0 high_threshold @
     degree @ unit @ '')''"

definition temperature_on_receive ::
  "(real \<Rightarrow> string) \<Rightarrow> (real \<Rightarrow> string) \<Rightarrow> temperature_config \<Rightarrow> env \<Rightarrow> temperature_state \<Rightarrow>
   packet \<Rightarrow> temperature_state outcome" where
  "temperature_on_receive fmt1 fmt0 cfg e s p =
     (if decoded p = None then returned s
      else
        (case subscript (decoded p) of
           Inl err \<Rightarrow> (returned s)\<lparr>raised := Some err\<rparr>
         | Inr d \<Rightarrow>
             if portnum d = Some ''TELEMETRY_APP'' then
               (let tel = get_default (telemetry d) empty_telemetry;
                    env_metrics = get_default (environmentMetrics tel) empty_environment_metrics
                in if temperature env_metrics \<noteq> None then
                     (case subscript (temperature env_metrics) of
                        Inl err \<Rightarrow> (returned s)\<lparr>raised := Some err\<rparr>
                      | Inr temp_celsius \<Rightarrow>
                          (let temp = (if USE_CELSIUS cfg then temp_celsius
                                       else celsius_to_fahrenheit temp_celsius);
                               unit = (if USE_CELSIUS cfg then ''C'' else ''F'');
                               sender_id = get_default (fromId p) ''unknown'';
                               current_time = now e;
                               time_since_alert = current_time - last_alert_time_temp s
                           in if time_since_alert \<ge> ALERT_COOLDOWN_temp cfg then
                                (let low_threshold =
                                       (if \<not> USE_CELSIUS cfg then LOW_TEMP_THRESHOLD cfg
                                        else (LOW_TEMP_THRESHOLD cfg - 32) * 5 / 9);
                                     high_threshold =
                                       (if \<not> USE_CELSIUS cfg then HIGH_TEMP_THRESHOLD cfg
                                        else (HIGH_TEMP_THRESHOLD cfg - 32) * 5 / 9);
                                     alert_message =
                                       (if temp < low_threshold
                                        then Some (low_temp_msg fmt1 fmt0 temp unit low_threshold)
                                        else if temp > high_threshold
                                        then Some (high_temp_msg fmt1 fmt0 temp unit high_threshold)
                                        else None)
                                 in case alert_message of
                                      None \<Rightarrow> returned s
                                    | Some m \<Rightarrow>
                                        if m \<noteq> [] then
                                          (if send_ok e then
                                             \<lparr>state = s\<lparr>last_alert_time_temp := current_time\<rparr>,
                                              sent = [SendText m None None], logged = [],
                                              raised = None\<rparr>
                                           else
                                             \<lparr>state = s, sent = [SendText m None None],
                                              logged = [], raised = Some SendError\<rparr>)
                                        else returned s)
                              else returned s))
                   else returned s)
             else returned s))"

text \<open>A view of a packet used to state properties: the sender id and the Celsius reading
  of an environment telemetry packet.\<close>

definition temperature_reading :: "packet \<Rightarrow> (string \<times> real) option" where
  "temperature_reading p =
     (case decoded p of
        None \<Rightarrow> None
      | Some d \<Rightarrow>
          if portnum d = Some ''TELEMETRY_APP'' then
            (case temperature (get_default (environmentMetrics (get_default (telemetry d) empty_telemetry))
                                 empty_environment_metrics) of
               None \<Rightarrow> None
             | Some c \<Rightarrow> Some (get_default (fromId p) ''unknown'', c))
          else None)"

text \<open>The reading and the two thresholds in the unit the script compares in.\<close>

definition shown_temp :: "temperature_config \<Rightarrow> real \<Rightarrow> real" where
  "shown_temp cfg c = (if USE_CELSIUS cfg then c else celsius_to_fahrenheit c)"

definition low_threshold :: "temperature_config \<Rightarrow> real" where
  "low_threshold cfg =
     (if \<not> USE_CELSIUS cfg then LOW_TEMP_THRESHOLD cfg else (LOW_TEMP_THRESHOLD cfg - 32) * 5 / 9)"

definition high_threshold :: "temperature_config \<Rightarrow> real" where
  "high_threshold cfg =
     (if \<not> USE_CELSIUS cfg then HIGH_TEMP_THRESHOLD cfg else (HIGH_TEMP_THRESHOLD cfg - 32) * 5 / 9)"

definition unit_name :: "temperature_config \<Rightarrow> string" where
  "unit_name cfg = (if USE_CELSIUS cfg then ''C'' else ''F'')"

text \<open>The outcome of the \<^verbatim>\<open>if alert_message:\<close> branch: the alert is broadcast, and the
  module's \<open>last_alert_time\<close> is set once \<^verbatim>\<open>sendText\<close> has returned.\<close>

definition alerted :: "env \<Rightarrow> temperature_state \<Rightarrow> string \<Rightarrow> temperature_state outcome" where
  "alerted e s m =
     (if send_ok e
      then \<lparr>state = s\<lparr>last_alert_time_temp := now e\<rparr>, sent = [SendText m None None],
            logged = [], raised = None\<rparr>
      else \<lparr>state = s, sent = [SendText m None None], logged = [], raised = Some SendError\<rparr>)"

section \<open>position_tracker.py\<close>

text \<open>Python truthiness of a number, and \<^verbatim>\<open>a or b\<close> on two dictionary lookups.\<close>

definition truthy :: "pynum \<Rightarrow> bool" where
  "truthy v = (case v of PInt i \<Rightarrow> i \<noteq> 0 | PFloat r \<Rightarrow> r \<noteq> 0)"

definition py_or :: "pynum option \<Rightarrow> pynum option \<Rightarrow> pynum option" where
  "py_or a b = (case a of None \<Rightarrow> b | Some v \<Rightarrow> if truthy v then Some v else b)"

text \<open>\<^verbatim>\<open>if isinstance(lat, int) and abs(lat) > 180: lat = lat / 1e7\<close>.\<close>

definition from_integer_format :: "pynum \<Rightarrow> pynum" where
  "from_integer_format v =
     (case v of
        PInt i \<Rightarrow> if \<bar>i\<bar> > 180 then PFloat (real_of_int i / 10000000) else PInt i
      | PFloat r \<Rightarrow> PFloat r)"

definition position_on_receive :: "env \<Rightarrow> packet \<Rightarrow> unit outcome" where
  "position_on_receive e p =
     (if decoded p = None then returned ()
      else
        (case subscript (decoded p) of
           Inl err \<Rightarrow> (returned ())\<lparr>raised := Some err\<rparr>
         | Inr d \<Rightarrow>
             if portnum d = Some ''POSITION_APP'' then
               (let pos = get_default (position d) empty_position;
                    lat = py_or (latitude pos) (latitudeI pos);
                    lon = py_or (longitude pos) (longitudeI pos)
                in case (lat, lon) of
                     (Some lat0, Some lon0) \<Rightarrow>
                       (let lat1 = from_integer_format lat0;
                            lon1 = from_integer_format lon0;
                            sender_id = get_default (fromId p) ''unknown'';
                            sender_name = get_node_name (nodes e) sender_id
                        in \<lparr>state = (), sent = [],
                            logged = [PositionRecord (timestamp e) sender_id sender_name lat1 lon1
                                        (altitude pos) (groundSpeed pos) (groundTrack pos)],
                            raised = None\<rparr>)
                   | _ \<Rightarrow> returned ())
             else returned ()))"

text \<open>Packets used to state properties: a position packet from \<open>n\<close> with the given
  coordinate fields and nothing else.\<close>

definition position_packet ::
  "string \<Rightarrow> pynum option \<Rightarrow> pynum option \<Rightarrow> pynum option \<Rightarrow> pynum option \<Rightarrow> packet" where
  "position_packet n lat latI lon lonI =
     \<lparr>fromId = Some n,
      decoded = Some \<lparr>portnum = Some ''POSITION_APP'', payload = None, telemetry = None,
        position = Some \<lparr>latitude = lat, latitudeI = latI, longitude = lon, longitudeI = lonI,
          altitude = None, groundSpeed = None, groundTrack = None\<rparr>\<rparr>\<rparr>"

text \<open>The latitude and longitude written by a callback outcome.\<close>

fun recorded_coordinates :: "record_event list \<Rightarrow> (pynum \<times> pynum) list" where
  "recorded_coordinates [] = []"
| "recorded_coordinates (PositionRecord ts i n lat lon a sp h # rs) = (lat, lon) # recorded_coordinates rs"
| "recorded_coordinates (BatteryRecord ts i n b v # rs) = recorded_coordinates rs"

section \<open>scheduled_broadcaster.py\<close>

record broadcaster_config =
  INTERVAL_MINUTES :: real
  MESSAGE :: string
  CHANNEL_INDEX :: nat


text \<open>\<^verbatim>\<open>MESSAGE.format(time=current_time)\<close> for a template whose only replacement field is
  \<^verbatim>\<open>{time}\<close>.\<close>

fun format_time :: "string \<Rightarrow> string \<Rightarrow> string" where
  "format_time [] t = []"
| "format_time (c # cs) t =
     (if startswith ''{time}'' (c # cs) then t @ format_time (drop 5 cs) t
      else c # format_time cs t)"

text \<open>\<^verbatim>\<open>send_scheduled_message\<close>: the \<^verbatim>\<open>try\<close>/\<^verbatim>\<open>except\<close> around \<^verbatim>\<open>sendText\<close> prints the
  error and returns, so no exception leaves the function.\<close>

definition send_scheduled_message :: "broadcaster_config \<Rightarrow> string \<Rightarrow> bool \<Rightarrow> unit outcome" where
  "send_scheduled_message cfg current_time ok =
     (let message = format_time (MESSAGE cfg) current_time
      in if ok then
           \<lparr>state = (), sent = [SendText message None (Some (CHANNEL_INDEX cfg))], logged = [],
            raised = None\<rparr>
         else
           \<lparr>state = (), sent = [SendText message None (Some (CHANNEL_INDEX cfg))], logged = [],
            raised = None\<rparr>)"

text \<open>One pass of the \<^verbatim>\<open>while running\<close> loop after its \<^verbatim>\<open>time.sleep(1)\<close>: the clock read by
  the test, what the send (if any) meets, and the clock read by \<^verbatim>\<open>last_send = time.time()\<close>.\<close>

record tick =
  t_check :: real
  hhmm :: string
  tick_send_ok :: bool
  t_after :: real

definition interval_seconds :: "broadcaster_config \<Rightarrow> real" where
  "interval_seconds cfg = INTERVAL_MINUTES cfg * 60"

text \<open>The main loop over the passes made before shutdown; it returns what each pass sent
  and the final \<^verbatim>\<open>last_send\<close>.\<close>

fun main_loop :: "broadcaster_config \<Rightarrow> real \<Rightarrow> tick list \<Rightarrow> action list list \<times> real" where
  "main_loop cfg last_send [] = ([], last_send)"
| "main_loop cfg last_send (k # ks) =
     (if t_check k - last_send \<ge> interval_seconds cfg then
        (let r = send_scheduled_message cfg (hhmm k) (tick_send_ok k);
             rest = main_loop cfg (t_after k) ks
         in (sent r # fst rest, snd rest))
      else
        (let rest = main_loop cfg last_send ks
         in ([] # fst rest, snd rest)))"


text \<open>The value of \<^verbatim>\<open>last_send\<close> when pass \<open>i\<close> of the loop begins.\<close>

definition last_send_before :: "broadcaster_config \<Rightarrow> real \<Rightarrow> tick list \<Rightarrow> nat \<Rightarrow> real" where
  "last_send_before cfg last_send ticks i = snd (main_loop cfg last_send (take i ticks))"

definition broadcast :: "broadcaster_config \<Rightarrow> string \<Rightarrow> action" where
  "broadcast cfg current_time =
     SendText (format_time (MESSAGE cfg) current_time) None (Some (CHANNEL_INDEX cfg))"

section \<open>Concrete packets and environments\<close>

definition battery_packet :: "string \<Rightarrow> int \<Rightarrow> packet" where
  "battery_packet n level =
     \<lparr>fromId = Some n,
      decoded = Some \<lparr>portnum = Some ''TELEMETRY_APP'', payload = None,
        telemetry = Some \<lparr>deviceMetrics = Some \<lparr>batteryLevel = Some level, voltage = None\<rparr>,
                          environmentMetrics = None\<rparr>,
        position = None\<rparr>\<rparr>"

definition temperature_packet :: "string \<Rightarrow> real \<Rightarrow> packet" where
  "temperature_packet n celsius =
     \<lparr>fromId = Some n,
      decoded = Some \<lparr>portnum = Some ''TELEMETRY_APP'', payload = None,
        telemetry = Some \<lparr>deviceMetrics = None,
                          environmentMetrics = Some \<lparr>temperature = Some celsius\<rparr>\<rparr>,
        position = None\<rparr>\<rparr>"

definition text_packet :: "string \<Rightarrow> string \<Rightarrow> packet" where
  "text_packet n body =
     \<lparr>fromId = Some n,
      decoded = Some \<lparr>portnum = Some ''TEXT_MESSAGE_APP'', payload = Some body,
        telemetry = None, position = None\<rparr>\<rparr>"



definition env_at :: "real \<Rightarrow> bool \<Rightarrow> env" where
  "env_at t ok = \<lparr>now = t, timestamp = ''2024-01-01 00:00:00'', nodes = [], send_ok = ok\<rparr>"


section \<open>Properties of battery_monitor.py\<close>


lemma battery_sent:
  "battery_reading p = Some (n, v) \<Longrightarrow>
   sent (battery_on_receive cfg e s p) =
     (if battery_due cfg e s n v
      then [SendText (battery_alert_msg (get_node_name (nodes e) n) v) None None] else [])"
  by (auto simp: battery_reading_def battery_on_receive_def subscript_def Let_def battery_due_def
           split: option.splits if_splits)


lemma battery_last_alert:
  "battery_reading p = Some (n, v) \<Longrightarrow>
   last_alert_time (state (battery_on_receive cfg e s p)) =
     (if battery_due cfg e s n v \<and> send_ok e then (last_alert_time s)(n \<mapsto> now e)
      else last_alert_time s)"
  by (auto simp: battery_reading_def battery_on_receive_def subscript_def Let_def battery_due_def
           split: option.splits if_splits)

lemma battery_level_kept:
  "battery_reading p = Some (n, v) \<Longrightarrow>
   node_batteries (state (battery_on_receive cfg e s p)) = (node_batteries s)(n \<mapsto> v)"
  by (auto simp: battery_reading_def battery_on_receive_def subscript_def Let_def
           split: option.splits if_splits)

lemma battery_reading_packet [simp]: "battery_reading (battery_packet n v) = Some (n, v)"
  by (simp add: battery_reading_def battery_packet_def get_default_def)

lemma get_node_name_nil [simp]: "get_node_name [] n = n"
  by (simp add: get_node_name_def)

text \<open>
  Claim C6.  The battery comparison is \<^verbatim>\<open>battery_level <= LOW_BATTERY_THRESHOLD\<close>: outside the
  cooldown window of the sender, a battery telemetry packet whose level equals the configured
  threshold sends the low-battery alert, and one whose level is the threshold plus one sends
  nothing.
\<close>

theorem battery_threshold_boundary:
  assumes "battery_reading p = Some (n, LOW_BATTERY_THRESHOLD cfg)"
      and "battery_reading q = Some (n, LOW_BATTERY_THRESHOLD cfg + 1)"
      and "ALERT_COOLDOWN cfg \<le> now e - get_default (last_alert_time s n) 0"
  shows "sent (battery_on_receive cfg e s p) =
           [SendText (battery_alert_msg (get_node_name (nodes e) n) (LOW_BATTERY_THRESHOLD cfg))
              None None]
         \<and> sent (battery_on_receive cfg e s q) = []"
  using assms by (simp add: battery_sent battery_due_def)

theorem battery_threshold_boundary_witness:
  "sent (battery_on_receive battery_defaults (env_at 5000 True) battery_init (battery_packet ''!a'' 20)) =
     [SendText ''LOW BATTERY: !a at 20%'' None None]
   \<and> sent (battery_on_receive battery_defaults (env_at 5000 True) battery_init (battery_packet ''!a'' 21)) = []"
  using battery_threshold_boundary [of "battery_packet ''!a'' 20" "''!a''" battery_defaults
          "battery_packet ''!a'' 21" "env_at 5000 True" battery_init]
  by (simp add: battery_defaults_def env_at_def battery_init_def get_default_def
        battery_alert_msg_def str_int_def str_nat.simps)


lemma length_battery_run [simp]: "length (battery_run cfg s evs) = length evs"
  by (induction evs arbitrary: s) (auto simp: Let_def)




section \<open>Properties of the other callbacks\<close>

lemma status_response_id [simp]: "status_response cfg e keyword response = response"
  by (simp add: status_response_def get_battery_info_def)

lemma keyword_loop_step:
  "keyword_loop cfg e s n t m ((k, resp) # rest) =
     (if str_in (lower k) m then replied e s n t resp else keyword_loop cfg e s n t m rest)"
  by (simp add: replied_def Let_def)

lemma keyword_loop_cases:
  "keyword_loop cfg e s n t m rules = returned s
   \<or> (\<exists>resp. keyword_loop cfg e s n t m rules = replied e s n t resp)"
proof (induction rules)
  case Nil
  then show ?case by simp
next
  case (Cons a rules)
  obtain k r where a: "a = (k, r)" by (cases a)
  show ?case
  proof (cases "str_in (lower k) m")
    case True
    then show ?thesis unfolding a keyword_loop_step by auto
  next
    case False
    then show ?thesis unfolding a keyword_loop_step using Cons.IH by simp
  qed
qed


lemma keyword_loop_none:
  "\<forall>(k', r') \<in> set rules. \<not> str_in (lower k') m \<Longrightarrow>
   keyword_loop cfg e s n t m rules = returned s"
proof (induction rules)
  case Nil
  then show ?case by simp
next
  case (Cons a rules)
  obtain k' r' where a: "a = (k', r')" by (cases a)
  show ?case using Cons unfolding a keyword_loop_step by simp
qed

lemma responder_none:
  "text_message p = None \<Longrightarrow> responder_on_receive decode cfg e s p = returned s"
  by (auto simp: text_message_def responder_on_receive_def subscript_def Let_def
           split: option.splits if_splits)

lemma responder_some:
  "text_message p = Some (n, body) \<Longrightarrow>
   responder_on_receive decode cfg e s p =
     (if now e - get_default (last_response_time s n) 0 < RESPONSE_COOLDOWN cfg then returned s
      else keyword_loop cfg e s n (now e) (strip (lower (decode body))) (RESPONSES cfg))"
  by (auto simp: text_message_def responder_on_receive_def subscript_def Let_def
           split: option.splits if_splits)

lemma responder_cases:
  "responder_on_receive decode cfg e s p = returned s
   \<or> (\<exists>n body resp. text_message p = Some (n, body) \<and>
         responder_on_receive decode cfg e s p = replied e s n (now e) resp)"
proof (cases "text_message p")
  case None
  then show ?thesis by (simp add: responder_none)
next
  case (Some a)
  obtain n body where a: "a = (n, body)" by (cases a)
  have tm: "text_message p = Some (n, body)" using Some a by simp
  show ?thesis
    using keyword_loop_cases [of cfg e s n "now e" "strip (lower (decode body))" "RESPONSES cfg"]
    unfolding responder_some [OF tm] using tm by auto
qed

lemma text_message_packet [simp]: "text_message (text_packet n body) = Some (n, body)"
  by (simp add: text_message_def text_packet_def get_default_def)

lemma temperature_none:
  assumes "temperature_reading p = None"
  shows "temperature_on_receive fmt1 fmt0 cfg e s p = returned s"
proof (cases "decoded p")
  case None
  then show ?thesis by (simp add: temperature_on_receive_def)
next
  case (Some d)
  show ?thesis
  proof (cases "portnum d = Some ''TELEMETRY_APP''")
    case True
    with Some assms have
      "temperature (get_default (environmentMetrics (get_default (telemetry d) empty_telemetry))
         empty_environment_metrics) = None"
      by (simp add: temperature_reading_def split: option.splits)
    with Some True show ?thesis
      by (simp add: temperature_on_receive_def subscript_def Let_def)
  next
    case False
    with Some show ?thesis by (simp add: temperature_on_receive_def subscript_def)
  qed
qed

lemma low_temp_msg_nonempty [simp]: "low_temp_msg fmt1 fmt0 t u l \<noteq> []"
  by (simp add: low_temp_msg_def)

lemma high_temp_msg_nonempty [simp]: "high_temp_msg fmt1 fmt0 t u l \<noteq> []"
  by (simp add: high_temp_msg_def)

lemma temperature_readingE:
  assumes "temperature_reading p = Some (n, c)"
  obtains d where "decoded p = Some d" and "portnum d = Some ''TELEMETRY_APP''"
    and "temperature (get_default (environmentMetrics (get_default (telemetry d) empty_telemetry))
           empty_environment_metrics) = Some c"
    and "get_default (fromId p) ''unknown'' = n"
proof (cases "decoded p")
  case None
  with assms show ?thesis by (simp add: temperature_reading_def)
next
  case (Some d)
  with assms have pn: "portnum d = Some ''TELEMETRY_APP''"
    by (simp add: temperature_reading_def split: if_splits)
  with Some assms show ?thesis
    by (intro that [of d]) (simp_all add: temperature_reading_def split: option.splits)
qed

lemma temperature_some:
  assumes "temperature_reading p = Some (n, c)"
  shows "temperature_on_receive fmt1 fmt0 cfg e s p =
     (if now e - last_alert_time_temp s \<ge> ALERT_COOLDOWN_temp cfg then
        (if shown_temp cfg c < low_threshold cfg
         then alerted e s (low_temp_msg fmt1 fmt0 (shown_temp cfg c) (unit_name cfg) (low_threshold cfg))
         else if shown_temp cfg c > high_threshold cfg
         then alerted e s (high_temp_msg fmt1 fmt0 (shown_temp cfg c) (unit_name cfg) (high_threshold cfg))
         else returned s)
      else returned s)"
proof -
  from assms obtain d where d: "decoded p = Some d" "portnum d = Some ''TELEMETRY_APP''"
    "temperature (get_default (environmentMetrics (get_default (telemetry d) empty_telemetry))
           empty_environment_metrics) = Some c"
    by (rule temperature_readingE)
  show ?thesis
  proof (cases "USE_CELSIUS cfg")
    case True
    then show ?thesis
      by (simp add: temperature_on_receive_def Let_def d subscript_def alerted_def shown_temp_def
            low_threshold_def high_threshold_def unit_name_def)
  next
    case False
    then show ?thesis
      by (simp add: temperature_on_receive_def Let_def d subscript_def alerted_def shown_temp_def
            low_threshold_def high_threshold_def unit_name_def)
  qed
qed

lemma temperature_cases:
  "temperature_on_receive fmt1 fmt0 cfg e s p = returned s
   \<or> (\<exists>m. temperature_on_receive fmt1 fmt0 cfg e s p = alerted e s m
         \<and> now e - last_alert_time_temp s \<ge> ALERT_COOLDOWN_temp cfg)"
proof (cases "temperature_reading p")
  case None
  then show ?thesis by (simp add: temperature_none)
next
  case (Some a)
  obtain n c where "a = (n, c)" by (cases a)
  with Some have "temperature_reading p = Some (n, c)" by simp
  from temperature_some [OF this] show ?thesis by auto
qed

lemma temperature_reading_packet [simp]: "temperature_reading (temperature_packet n c) = Some (n, c)"
  by (simp add: temperature_reading_def temperature_packet_def get_default_def)

lemma replied_simps [simp]:
  "sent (replied e s n t resp) = [SendText resp (Some n) None]"
  "logged (replied e s n t resp) = []"
  "raised (replied e s n t resp) = (if send_ok e then None else Some SendError)"
  "state (replied e s n t resp) =
     (if send_ok e then s\<lparr>last_response_time := (last_response_time s)(n \<mapsto> t)\<rparr> else s)"
  by (simp_all add: replied_def)

lemma alerted_simps [simp]:
  "sent (alerted e s m) = [SendText m None None]"
  "logged (alerted e s m) = []"
  "raised (alerted e s m) = (if send_ok e then None else Some SendError)"
  "state (alerted e s m) = (if send_ok e then s\<lparr>last_alert_time_temp := now e\<rparr> else s)"
  by (simp_all add: alerted_def)

lemma returned_simps [simp]:
  "sent (returned s) = []" "logged (returned s) = []" "raised (returned s) = None"
  "state (returned s) = s"
  by (simp_all add: returned_def)


lemmas eval_defs =
  battery_defaults_def env_at_def battery_init_def get_default_def battery_alert_msg_def
  str_int_def str_nat.simps Let_def responder_defaults_def responder_init_def
  temperature_defaults_def temperature_init_def subscript_def


lemma position_packet_eval:
  "position_on_receive e (position_packet n lat latI lon lonI) =
     (case (py_or lat latI, py_or lon lonI) of
        (Some a, Some b) \<Rightarrow>
          \<lparr>state = (), sent = [],
           logged = [PositionRecord (timestamp e) n (get_node_name (nodes e) n)
                       (from_integer_format a) (from_integer_format b) None None None],
           raised = None\<rparr>
      | _ \<Rightarrow> returned ())"
  by (simp add: position_on_receive_def position_packet_def subscript_def get_default_def Let_def
        split: option.splits)


lemma position_missing:
  assumes "decoded p = Some d" and "portnum d = Some ''POSITION_APP''"
    and "py_or (latitude (get_default (position d) empty_position))
               (latitudeI (get_default (position d) empty_position)) = None
         \<or> py_or (longitude (get_default (position d) empty_position))
                 (longitudeI (get_default (position d) empty_position)) = None"
  shows "position_on_receive e p = returned ()"
  using assms
  by (auto simp: position_on_receive_def subscript_def Let_def split: option.splits)

lemma send_scheduled_message_sent [simp]:
  "sent (send_scheduled_message cfg h ok) = [broadcast cfg h]"
  by (simp add: send_scheduled_message_def broadcast_def Let_def)

lemma main_loop_length [simp]: "length (fst (main_loop cfg l ticks)) = length ticks"
  by (induction ticks arbitrary: l) (simp_all add: Let_def)



lemma last_send_before_0 [simp]: "last_send_before cfg l ticks 0 = l"
  by (simp add: last_send_before_def)








section \<open>The claims\<close>

text \<open>
  Claim C7.  A battery telemetry packet from node \<open>n\<close> with level \<open>v\<close> leaves
  \<open>node_batteries[n] = v\<close>, whether an alert is sent, suppressed or fails.  When the level is
  above the threshold or the cooldown of \<open>n\<close> is running, nothing is sent and
  \<open>last_alert_time\<close> is the same map as before, for every node.  In the auto-responder a text
  message inside the sender's cooldown returns at once, and whenever no reply is sent the
  whole state, \<open>last_response_time\<close> of every node included, is unchanged.
\<close>

theorem metric_kept_and_suppressed_frame:
  "(battery_reading p = Some (n, v) \<longrightarrow>
      node_batteries (state (battery_on_receive cfg e s p)) n = Some v
      \<and> (LOW_BATTERY_THRESHOLD cfg < v
           \<or> now e - get_default (last_alert_time s n) 0 < ALERT_COOLDOWN cfg \<longrightarrow>
         sent (battery_on_receive cfg e s p) = []
         \<and> last_alert_time (state (battery_on_receive cfg e s p)) = last_alert_time s))
   \<and> (text_message q = Some (m, body)
        \<and> now e - get_default (last_response_time rs m) 0 < RESPONSE_COOLDOWN rcfg \<longrightarrow>
      responder_on_receive decode rcfg e rs q = returned rs)
   \<and> (sent (responder_on_receive decode rcfg e rs q) = [] \<longrightarrow>
      state (responder_on_receive decode rcfg e rs q) = rs)"
proof (intro conjI impI)
  assume r: "battery_reading p = Some (n, v)"
  show "node_batteries (state (battery_on_receive cfg e s p)) n = Some v"
    using r by (simp add: battery_level_kept)
  assume "LOW_BATTERY_THRESHOLD cfg < v
           \<or> now e - get_default (last_alert_time s n) 0 < ALERT_COOLDOWN cfg"
  then have nd: "\<not> battery_due cfg e s n v" by (auto simp: battery_due_def)
  show "sent (battery_on_receive cfg e s p) = []" using r nd by (simp add: battery_sent)
  show "last_alert_time (state (battery_on_receive cfg e s p)) = last_alert_time s"
    using r nd by (simp add: battery_last_alert)
next
  assume "text_message q = Some (m, body)
        \<and> now e - get_default (last_response_time rs m) 0 < RESPONSE_COOLDOWN rcfg"
  then show "responder_on_receive decode rcfg e rs q = returned rs"
    by (simp add: responder_some)
next
  assume a: "sent (responder_on_receive decode rcfg e rs q) = []"
  from responder_cases [of decode rcfg e rs q] a
  show "state (responder_on_receive decode rcfg e rs q) = rs" by auto
qed

theorem metric_kept_and_suppressed_frame_witness:
  "node_batteries (state (battery_on_receive battery_defaults (env_at 5000 True) battery_init
       (battery_packet ''!a'' 50))) ''!a'' = Some 50
   \<and> sent (battery_on_receive battery_defaults (env_at 5000 True) battery_init
       (battery_packet ''!a'' 50)) = []
   \<and> last_alert_time (state (battery_on_receive battery_defaults (env_at 5000 True) battery_init
       (battery_packet ''!a'' 50))) ''!a'' = None
   \<and> responder_on_receive (\<lambda>x. x) responder_defaults (env_at 30 True) responder_init
       (text_packet ''!b'' ''status'') = returned responder_init"
  using metric_kept_and_suppressed_frame [where p = "battery_packet ''!a'' 50" and n = "''!a''"
      and v = 50 and cfg = battery_defaults and e = "env_at 30 True" and s = battery_init
      and q = "text_packet ''!b'' ''status''" and m = "''!b''" and body = "''status''"
      and rs = responder_init and rcfg = responder_defaults and decode = "\<lambda>x. x"]
    metric_kept_and_suppressed_frame [where p = "battery_packet ''!a'' 50" and n = "''!a''"
      and v = 50 and cfg = battery_defaults and e = "env_at 5000 True" and s = battery_init
      and q = "text_packet ''!b'' ''status''" and m = "''!b''" and body = "''status''"
      and rs = responder_init and rcfg = responder_defaults and decode = "\<lambda>x. x"]
  by (simp add: eval_defs)




text \<open>
  Claim C1, as the code has it.  temperature_alert.py keeps one \<^verbatim>\<open>last_alert_time\<close> for the
  whole module.  The outcome of a temperature packet does not depend on its sender: two packets
  with the same reading from any two nodes have the same outcome.  Once an alert has been sent
  at the time of \<open>e1\<close>, a packet from any node, the same or another, arriving less than
  \<open>ALERT_COOLDOWN\<close> later sends nothing and leaves the state as it is.
\<close>

theorem temperature_cooldown_is_global:
  "(temperature_reading p = Some (a, c) \<and> temperature_reading q = Some (b, c) \<longrightarrow>
      temperature_on_receive fmt1 fmt0 cfg e s p = temperature_on_receive fmt1 fmt0 cfg e s q)
   \<and> (sent (temperature_on_receive fmt1 fmt0 cfg e1 s p1) \<noteq> [] \<and> send_ok e1
        \<and> now e2 - now e1 < ALERT_COOLDOWN_temp cfg \<longrightarrow>
      last_alert_time_temp (state (temperature_on_receive fmt1 fmt0 cfg e1 s p1)) = now e1
      \<and> temperature_on_receive fmt1 fmt0 cfg e2
           (state (temperature_on_receive fmt1 fmt0 cfg e1 s p1)) p2 =
         returned (state (temperature_on_receive fmt1 fmt0 cfg e1 s p1)))"
proof (intro conjI impI)
  assume "temperature_reading p = Some (a, c) \<and> temperature_reading q = Some (b, c)"
  then show "temperature_on_receive fmt1 fmt0 cfg e s p = temperature_on_receive fmt1 fmt0 cfg e s q"
    by (simp add: temperature_some)
next
  let ?r1 = "temperature_on_receive fmt1 fmt0 cfg e1 s p1"
  assume a: "sent ?r1 \<noteq> [] \<and> send_ok e1 \<and> now e2 - now e1 < ALERT_COOLDOWN_temp cfg"
  from temperature_cases [of fmt1 fmt0 cfg e1 s p1] a
  obtain m where "?r1 = alerted e1 s m" by auto
  with a show l: "last_alert_time_temp (state ?r1) = now e1" by simp
  from temperature_cases [of fmt1 fmt0 cfg e2 "state ?r1" p2] l a
  show "temperature_on_receive fmt1 fmt0 cfg e2 (state ?r1) p2 = returned (state ?r1)" by auto
qed

theorem temperature_cooldown_is_global_witness:
  "temperature_on_receive (\<lambda>x. []) (\<lambda>x. []) temperature_defaults (env_at 2000 True)
       temperature_init (temperature_packet ''!a'' 0)
   = temperature_on_receive (\<lambda>x. []) (\<lambda>x. []) temperature_defaults (env_at 2000 True)
       temperature_init (temperature_packet ''!b'' 0)
   \<and> sent (temperature_on_receive (\<lambda>x. []) (\<lambda>x. []) temperature_defaults (env_at 2010 True)
       (state (temperature_on_receive (\<lambda>x. []) (\<lambda>x. []) temperature_defaults (env_at 2000 True)
          temperature_init (temperature_packet ''!a'' 0)))
       (temperature_packet ''!b'' 0)) = []"
proof -
  let ?r1 = "temperature_on_receive (\<lambda>x. []) (\<lambda>x. []) temperature_defaults (env_at 2000 True)
       temperature_init (temperature_packet ''!a'' 0)"
  have a: "sent ?r1 \<noteq> []"
    by (simp add: temperature_some eval_defs shown_temp_def low_threshold_def high_threshold_def
        celsius_to_fahrenheit_def)
  have b: "send_ok (env_at 2000 True)"
    "now (env_at 2010 True) - now (env_at 2000 True) < ALERT_COOLDOWN_temp temperature_defaults"
    by (simp_all add: env_at_def temperature_defaults_def)
  note T = temperature_cooldown_is_global [where p = "temperature_packet ''!a'' 0" and a = "''!a''"
      and c = 0 and q = "temperature_packet ''!b'' 0" and b = "''!b''"
      and ?fmt1.0 = "\<lambda>x. []" and ?fmt0.0 = "\<lambda>x. []" and cfg = temperature_defaults
      and e = "env_at 2000 True" and s = temperature_init
      and ?e1.0 = "env_at 2000 True" and ?p1.0 = "temperature_packet ''!a'' 0"
      and ?e2.0 = "env_at 2010 True" and ?p2.0 = "temperature_packet ''!b'' 0"]
  have c1: "?r1 = temperature_on_receive (\<lambda>x. []) (\<lambda>x. []) temperature_defaults
       (env_at 2000 True) temperature_init (temperature_packet ''!b'' 0)"
    using T by simp
  have c2: "temperature_on_receive (\<lambda>x. []) (\<lambda>x. []) temperature_defaults (env_at 2010 True)
       (state ?r1) (temperature_packet ''!b'' 0) = returned (state ?r1)"
    using T a b by blast
  show ?thesis by (rule conjI [OF c1]) (simp add: c2)
qed

text \<open>
  Node \<open>!a\<close> reports 0 degrees Celsius at time 2000 and the alert goes out; node \<open>!b\<close> reports
  0 degrees at time 2010 and nothing is sent, although the same packet on the initial state
  does send an alert.
\<close>

theorem temperature_cooldown_per_node_counterexample:
  "sent (temperature_on_receive (\<lambda>x. []) (\<lambda>x. []) temperature_defaults (env_at 2000 True)
       temperature_init (temperature_packet ''!a'' 0)) \<noteq> []
   \<and> sent (temperature_on_receive (\<lambda>x. []) (\<lambda>x. []) temperature_defaults (env_at 2010 True)
       (state (temperature_on_receive (\<lambda>x. []) (\<lambda>x. []) temperature_defaults (env_at 2000 True)
          temperature_init (temperature_packet ''!a'' 0)))
       (temperature_packet ''!b'' 0)) = []
   \<and> sent (temperature_on_receive (\<lambda>x. []) (\<lambda>x. []) temperature_defaults (env_at 2010 True)
       temperature_init (temperature_packet ''!b'' 0)) \<noteq> []"
  by (simp add: temperature_some eval_defs shown_temp_def low_threshold_def high_threshold_def
        celsius_to_fahrenheit_def)



text \<open>
  Claim C5, as the code has it.  The conversion divides by \<open>1e7\<close> exactly the values that are
  Python ints of magnitude above 180; a float, and an int of magnitude at most 180, is kept
  as it is.  Hence a position whose fixed-point latitude and longitude both exceed 180 in
  magnitude is recorded with the same coordinates as the same position given in decimal
  degrees (floats idealised as reals).
\<close>

theorem normalization_of_integers:
  "from_integer_format (PInt i) =
     (if \<bar>i\<bar> > 180 then PFloat (real_of_int i / 10000000) else PInt i)
   \<and> from_integer_format (PFloat r) = PFloat r
   \<and> (\<bar>i\<bar> > 180 \<and> \<bar>j\<bar> > 180 \<longrightarrow>
        recorded_coordinates (logged (position_on_receive e
          (position_packet n None (Some (PInt i)) None (Some (PInt j))))) =
          [(PFloat (real_of_int i / 10000000), PFloat (real_of_int j / 10000000))]
        \<and> recorded_coordinates (logged (position_on_receive e
          (position_packet n (Some (PFloat (real_of_int i / 10000000))) None
             (Some (PFloat (real_of_int j / 10000000))) None))) =
          [(PFloat (real_of_int i / 10000000), PFloat (real_of_int j / 10000000))])"
  by (auto simp: position_packet_eval py_or_def truthy_def from_integer_format_def)

theorem normalization_of_integers_witness:
  "from_integer_format (PInt 374221234) = PFloat (374221234 / 10000000)
   \<and> recorded_coordinates (logged (position_on_receive (env_at 5000 True)
          (position_packet ''!a'' None (Some (PInt 374221234)) None (Some (PInt (- 1220841234)))))) =
      recorded_coordinates (logged (position_on_receive (env_at 5000 True)
          (position_packet ''!a'' (Some (PFloat (374221234 / 10000000))) None
             (Some (PFloat (- 1220841234 / 10000000))) None)))"
  using normalization_of_integers [where i = 374221234 and j = "- 1220841234" and n = "''!a''"
      and e = "env_at 5000 True"]
  by simp

text \<open>
  The position at 0.00001 degrees north and east: in fixed-point form its coordinates are
  the ints 100 and 100, which the tracker records as 100 and 100; in decimal form it records
  0.00001 and 0.00001.  A float of magnitude above 180 is not divided either.
\<close>

theorem normalization_counterexample:
  "recorded_coordinates (logged (position_on_receive (env_at 5000 True)
       (position_packet ''!a'' None (Some (PInt 100)) None (Some (PInt 100))))) =
     [(PInt 100, PInt 100)]
   \<and> recorded_coordinates (logged (position_on_receive (env_at 5000 True)
       (position_packet ''!a'' (Some (PFloat (100 / 10000000))) None
          (Some (PFloat (100 / 10000000))) None))) =
     [(PFloat (1 / 100000), PFloat (1 / 100000))]
   \<and> from_integer_format (PFloat 200) = PFloat 200"
  by (simp add: position_packet_eval py_or_def truthy_def from_integer_format_def)

text \<open>
  Claim C10.  A position packet whose \<open>latitude\<close> is present and zero (int or float) while
  \<open>latitudeI\<close> is absent, or whose \<open>longitude\<close> is present and zero while \<open>longitudeI\<close> is
  absent, is dropped: the callback returns without appending a line.
\<close>

theorem zero_coordinate_dropped:
  assumes "decoded p = Some d" and "portnum d = Some ''POSITION_APP''"
    and "position d = Some pos"
    and "((latitude pos = Some (PInt 0) \<or> latitude pos = Some (PFloat 0)) \<and> latitudeI pos = None)
         \<or> ((longitude pos = Some (PInt 0) \<or> longitude pos = Some (PFloat 0))
              \<and> longitudeI pos = None)"
  shows "position_on_receive e p = returned ()"
proof (rule position_missing [OF assms(1,2)])
  from assms(3,4)
  show "py_or (latitude (get_default (position d) empty_position))
               (latitudeI (get_default (position d) empty_position)) = None
         \<or> py_or (longitude (get_default (position d) empty_position))
                 (longitudeI (get_default (position d) empty_position)) = None"
    by (auto simp: get_default_def py_or_def truthy_def)
qed

theorem zero_coordinate_dropped_witness:
  "position_on_receive (env_at 5000 True)
     (position_packet ''!a'' (Some (PFloat 0)) None (Some (PFloat 10)) None) = returned ()
   \<and> logged (position_on_receive (env_at 5000 True)
     (position_packet ''!a'' (Some (PFloat 51)) None (Some (PInt 0)) None)) = []"
  using zero_coordinate_dropped [where p = "position_packet ''!a'' (Some (PFloat 0)) None (Some (PFloat 10)) None"
      and e = "env_at 5000 True"
      and pos = "\<lparr>latitude = Some (PFloat 0), latitudeI = None, longitude = Some (PFloat 10),
                  longitudeI = None, altitude = None, groundSpeed = None, groundTrack = None\<rparr>"
      and d = "\<lparr>portnum = Some ''POSITION_APP'', payload = None, telemetry = None,
        position = Some \<lparr>latitude = Some (PFloat 0), latitudeI = None, longitude = Some (PFloat 10),
                  longitudeI = None, altitude = None, groundSpeed = None, groundTrack = None\<rparr>\<rparr>"]
    zero_coordinate_dropped [where p = "position_packet ''!a'' (Some (PFloat 51)) None (Some (PInt 0)) None"
      and e = "env_at 5000 True"
      and pos = "\<lparr>latitude = Some (PFloat 51), latitudeI = None, longitude = Some (PInt 0),
                  longitudeI = None, altitude = None, groundSpeed = None, groundTrack = None\<rparr>"
      and d = "\<lparr>portnum = Some ''POSITION_APP'', payload = None, telemetry = None,
        position = Some \<lparr>latitude = Some (PFloat 51), latitudeI = None, longitude = Some (PInt 0),
                  longitudeI = None, altitude = None, groundSpeed = None, groundTrack = None\<rparr>\<rparr>"]
  by (simp add: position_packet_def)





end
